theory Spec2Isabelle
  imports Main
begin

section \<open>Python values of the turn loop\<close>

text \<open>
  The driver \<^verbatim>\<open>ollama_automatic_function_calling\<close> is duck-typed: it probes its
  arguments and the backend's responses with \<^verbatim>\<open>getattr\<close>, \<^verbatim>\<open>hasattr\<close>,
  \<^verbatim>\<open>isinstance\<close> and truth tests. The values it can meet are modelled by one datatype.
  An object \<open>PObj c attrs\<close> has the attributes \<open>attrs\<close> and is callable exactly when
  \<open>c = Some f\<close>, where \<open>f\<close> names its code; it defines no other protocol
  (no \<^verbatim>\<open>__iter__\<close>, \<^verbatim>\<open>__index__\<close>, \<^verbatim>\<open>__bool__\<close>). Floats are not modelled.
\<close>

datatype pyval =
    PNone
  | PBool bool
  | PInt int
  | PStr string
  | PList "pyval list"
  | PDict "(pyval \<times> pyval) list"
  | PObj "nat option" "(string \<times> pyval) list"

text \<open>
  What a call of an external callable (the backend, a tool, \<^verbatim>\<open>model_dump\<close>) does:
  it returns a value, or raises an exception \<open>e\<close>. \<open>Raises b m\<close> records
  whether the class of \<open>e\<close> derives from \<^verbatim>\<open>Exception\<close> (\<open>b\<close>; it is false for
  \<^verbatim>\<open>KeyboardInterrupt\<close>, \<^verbatim>\<open>SystemExit\<close> and \<^verbatim>\<open>GeneratorExit\<close>) and the text
  \<^verbatim>\<open>str(e)\<close>.
\<close>

datatype outcome = Returns pyval | Raises bool string

text \<open>
  The exceptions that leave the driver: the two \<^verbatim>\<open>ValueError\<close>s it raises itself,
  the \<^verbatim>\<open>TypeError\<close>s and \<^verbatim>\<open>AttributeError\<close>s the interpreter raises on the
  driver's own statements (their text is not modelled), and an exception of an external
  callable that nothing caught.
\<close>

datatype py_error =
    ValueError string
  | TypeError
  | AttributeError
  | Raised bool string

text \<open>
  The parts of the Python runtime the repository does not define. \<open>call rt f args kw w\<close>
  is the call \<^verbatim>\<open>f(*args, **kw)\<close> in the world \<open>w\<close> (whatever state the backend and the
  tools keep); it also decides what calling a value that is not callable, or calling
  with a \<^verbatim>\<open>**\<close> operand that is no mapping, raises (a \<^verbatim>\<open>TypeError\<close>, as
  \<open>Raises True\<close>). The callee is taken not to touch the caller's lists.
  \<open>json_loads\<close> is \<^verbatim>\<open>json.loads\<close>, \<open>None\<close> when it raises (its errors derive from
  \<^verbatim>\<open>Exception\<close>). \<open>str_other\<close> is \<^verbatim>\<open>str\<close> on lists, dicts and objects, taken
  not to raise.
\<close>

record 'w runtime =
  call :: "pyval \<Rightarrow> pyval list \<Rightarrow> pyval \<Rightarrow> 'w \<Rightarrow> outcome \<times> 'w"
  json_loads :: "string \<Rightarrow> pyval option"
  str_other :: "pyval \<Rightarrow> string"

text \<open>
  The mutable state. List objects the caller owns live in \<open>heap\<close>, addressed by
  reference: the driver receives the reference of \<^verbatim>\<open>messages\<close>. \<open>trace\<close> is a log of
  the calls the driver makes at line 88 (the backend) and at line 126 (a tool), kept
  only to state properties about them.
\<close>

datatype event = Backend_Call pyval | Tool_Call pyval pyval

record 'w driver_state =
  heap :: "nat \<Rightarrow> pyval list"
  trace :: "event list"
  world :: "'w"

subsection \<open>Builtins\<close>

fun truthy :: "pyval \<Rightarrow> bool" where
  "truthy PNone = False"
| "truthy (PBool b) = b"
| "truthy (PInt i) = (i \<noteq> 0)"
| "truthy (PStr s) = (s \<noteq> [])"
| "truthy (PList xs) = (xs \<noteq> [])"
| "truthy (PDict kvs) = (kvs \<noteq> [])"
| "truthy (PObj c attrs) = True"

definition py_or :: "pyval \<Rightarrow> pyval \<Rightarrow> pyval" where
  "py_or a b = (if truthy a then a else b)"

fun callable_py :: "pyval \<Rightarrow> bool" where
  "callable_py (PObj (Some f) attrs) = True"
| "callable_py v = False"

fun is_dict :: "pyval \<Rightarrow> bool" where
  "is_dict (PDict kvs) = True"
| "is_dict v = False"

fun getattr_py :: "pyval \<Rightarrow> string \<Rightarrow> pyval \<Rightarrow> pyval" where
  "getattr_py (PObj c attrs) n d = (case map_of attrs n of Some v \<Rightarrow> v | None \<Rightarrow> d)"
| "getattr_py v n d = d"

fun hasattr_py :: "pyval \<Rightarrow> string \<Rightarrow> bool" where
  "hasattr_py (PObj c attrs) n = (map_of attrs n \<noteq> None)"
| "hasattr_py v n = False"

text \<open>Plain attribute access \<^verbatim>\<open>v.n\<close>, which raises when the attribute is missing.\<close>

fun attr_py :: "pyval \<Rightarrow> string \<Rightarrow> py_error + pyval" where
  "attr_py (PObj c attrs) n = (case map_of attrs n of Some v \<Rightarrow> Inr v | None \<Rightarrow> Inl AttributeError)"
| "attr_py v n = Inl AttributeError"

text \<open>
  Dictionaries keep insertion order. Keys are compared as Python compares hashable
  values: \<^verbatim>\<open>True == 1\<close> and \<^verbatim>\<open>False == 0\<close>; objects are compared by their
  structure, which stands for their identity.
\<close>

fun hashable :: "pyval \<Rightarrow> bool" where
  "hashable (PList xs) = False"
| "hashable (PDict kvs) = False"
| "hashable v = True"

fun key_eq :: "pyval \<Rightarrow> pyval \<Rightarrow> bool" where
  "key_eq (PBool b) (PInt i) = (i = (if b then 1 else 0))"
| "key_eq (PInt i) (PBool b) = (i = (if b then 1 else 0))"
| "key_eq a b = (a = b)"

fun dict_lookup :: "(pyval \<times> pyval) list \<Rightarrow> pyval \<Rightarrow> pyval option" where
  "dict_lookup [] k = None"
| "dict_lookup ((k', v) # kvs) k = (if key_eq k' k then Some v else dict_lookup kvs k)"

text \<open>\<^verbatim>\<open>d.get(k, default)\<close> for a string literal \<open>k\<close>, on a value known to be a dict.\<close>

fun dict_get :: "pyval \<Rightarrow> string \<Rightarrow> pyval \<Rightarrow> pyval" where
  "dict_get (PDict kvs) k d = (case dict_lookup kvs (PStr k) of Some v \<Rightarrow> v | None \<Rightarrow> d)"
| "dict_get v k d = d"

text \<open>\<^verbatim>\<open>d[k] = v\<close>: an unhashable key raises; an existing key keeps its place.\<close>

fun dict_update :: "(pyval \<times> pyval) list \<Rightarrow> pyval \<Rightarrow> pyval \<Rightarrow> (pyval \<times> pyval) list" where
  "dict_update [] k v = [(k, v)]"
| "dict_update ((k', v') # kvs) k v =
     (if key_eq k' k then (k', v) # kvs else (k', v') # dict_update kvs k v)"

definition dict_set :: "(pyval \<times> pyval) list \<Rightarrow> pyval \<Rightarrow> pyval \<Rightarrow> py_error + (pyval \<times> pyval) list" where
  "dict_set kvs k v = (if hashable k then Inr (dict_update kvs k v) else Inl TypeError)"

text \<open>\<^verbatim>\<open>kwargs.get(k, default)\<close> on the driver's own keyword arguments.\<close>

definition kwargs_get :: "(string \<times> pyval) list \<Rightarrow> string \<Rightarrow> pyval \<Rightarrow> pyval" where
  "kwargs_get kwargs k d = (case map_of kwargs k of Some v \<Rightarrow> v | None \<Rightarrow> d)"

text \<open>What a \<^verbatim>\<open>for\<close> loop iterates over; a string yields its characters.\<close>

fun iter_py :: "pyval \<Rightarrow> py_error + pyval list" where
  "iter_py (PList xs) = Inr xs"
| "iter_py (PDict kvs) = Inr (map fst kvs)"
| "iter_py (PStr s) = Inr (map (\<lambda>c. PStr [c]) s)"
| "iter_py v = Inl TypeError"

text \<open>The number of iterations of \<^verbatim>\<open>for _ in range(v)\<close>.\<close>

fun range_py :: "pyval \<Rightarrow> py_error + nat" where
  "range_py (PInt n) = Inr (nat n)"
| "range_py (PBool b) = Inr (if b then 1 else 0)"
| "range_py v = Inl TypeError"

definition digit_char :: "nat \<Rightarrow> char" where
  "digit_char d = ''0123456789'' ! d"

fun str_nat :: "nat \<Rightarrow> string" where
  "str_nat n = (if n < 10 then [digit_char n] else str_nat (n div 10) @ [digit_char (n mod 10)])"

declare str_nat.simps [simp del]

definition str_int :: "int \<Rightarrow> string" where
  "str_int i = (if i < 0 then CHR ''-'' # str_nat (nat (- i)) else str_nat (nat i))"

text \<open>\<^verbatim>\<open>str(v)\<close>, which is also what an f-string field \<^verbatim>\<open>{v}\<close> inserts.\<close>

definition py_str :: "'w runtime \<Rightarrow> pyval \<Rightarrow> string" where
  "py_str rt v =
     (case v of
        PNone \<Rightarrow> ''None''
      | PBool b \<Rightarrow> (if b then ''True'' else ''False'')
      | PInt i \<Rightarrow> str_int i
      | PStr s \<Rightarrow> s
      | _ \<Rightarrow> str_other rt v)"

text \<open>The call \<^verbatim>\<open>f(*args, **kw)\<close> outside any \<^verbatim>\<open>try\<close>: an exception propagates.\<close>

definition py_call ::
  "'w runtime \<Rightarrow> pyval \<Rightarrow> pyval list \<Rightarrow> pyval \<Rightarrow> 'w \<Rightarrow> (py_error + pyval) \<times> 'w" where
  "py_call rt f args kw w =
     (case call rt f args kw w of
        (Returns v, w') \<Rightarrow> (Inr v, w')
      | (Raises b m, w') \<Rightarrow> (Inl (Raised b m), w'))"

text \<open>\<^verbatim>\<open>messages.append(m)\<close> on the list at reference \<open>a\<close>.\<close>

definition append_msg :: "nat \<Rightarrow> pyval \<Rightarrow> 'w driver_state \<Rightarrow> 'w driver_state" where
  "append_msg a m st = st\<lparr>heap := (heap st)(a := heap st a @ [m])\<rparr>"

section \<open>The helpers of the driver (lines 36 to 72)\<close>

text \<open>
  The helpers that call nothing are functions of their argument; \<^verbatim>\<open>_to_msg_dict\<close>
  may call \<^verbatim>\<open>model_dump\<close> and so passes the world on.
\<close>

definition to_msg_dict ::
  "'w runtime \<Rightarrow> pyval \<Rightarrow> 'w \<Rightarrow> (py_error + pyval) \<times> 'w" where
  "to_msg_dict rt msg w =
     (if hasattr_py msg ''model_dump''
      then py_call rt (getattr_py msg ''model_dump'' PNone) []
             (PDict [(PStr ''exclude_none'', PBool True)]) w
      else if is_dict msg then (Inr msg, w)
      else (Inr (PDict [(PStr ''role'', getattr_py msg ''role'' (PStr ''assistant'')),
                        (PStr ''content'', getattr_py msg ''content'' (PStr ''''))]), w))"

definition extract_tool_call_parts :: "pyval \<Rightarrow> pyval \<times> pyval" where
  "extract_tool_call_parts tool_call =
     (let function0 = getattr_py tool_call ''function'' PNone;
          function = (if function0 = PNone \<and> is_dict tool_call
                      then dict_get tool_call ''function'' (PDict []) else function0)
      in if is_dict function
         then (dict_get function ''name'' PNone,
               py_or (dict_get function ''arguments'' PNone) (PDict []))
         else (getattr_py function ''name'' PNone,
               py_or (getattr_py function ''arguments'' PNone) (PDict [])))"

definition infer_tool_name :: "pyval \<Rightarrow> pyval" where
  "infer_tool_name t =
     (if t = PNone then PNone
      else if is_dict t then
        (let fn = py_or (dict_get t ''function'' PNone) (PDict [])
         in if is_dict fn then dict_get fn ''name'' PNone else PNone)
      else py_or (getattr_py t ''name'' PNone) (getattr_py t ''__name__'' PNone))"

definition resolve_callable :: "pyval \<Rightarrow> pyval" where
  "resolve_callable fn =
     (let wrapped = getattr_py fn ''__wrapped__'' PNone
      in if callable_py wrapped then wrapped else fn)"

section \<open>Building the registry (lines 74 to 79)\<close>

fun register_tools :: "pyval list \<Rightarrow> (pyval \<times> pyval) list \<Rightarrow> py_error + (pyval \<times> pyval) list" where
  "register_tools [] tm = Inr tm"
| "register_tools (t # ts) tm =
     (let name = infer_tool_name t
      in if truthy name
         then (case dict_set tm name t of
                 Inl e \<Rightarrow> Inl e
               | Inr tm' \<Rightarrow> register_tools ts tm')
         else register_tools ts tm)"

definition build_tool_map :: "pyval \<Rightarrow> pyval \<Rightarrow> py_error + pyval" where
  "build_tool_map tool_map tools =
     (if tool_map = PNone \<and> truthy tools
      then (case iter_py tools of
              Inl e \<Rightarrow> Inl e
            | Inr ts \<Rightarrow> (case register_tools ts [] of
                           Inl e \<Rightarrow> Inl e
                         | Inr tm \<Rightarrow> Inr (PDict tm)))
      else Inr tool_map)"

section \<open>One requested tool call (lines 104 to 137)\<close>

text \<open>
  \<^verbatim>\<open>tool_map.get(tool_name) if tool_map else None\<close>. A dict raises on an unhashable
  key; an object is asked for its \<^verbatim>\<open>get\<close>; any other true value has none.
\<close>

definition registry_get ::
  "'w runtime \<Rightarrow> pyval \<Rightarrow> pyval \<Rightarrow> 'w \<Rightarrow> (py_error + pyval) \<times> 'w" where
  "registry_get rt tool_map tool_name w =
     (if truthy tool_map then
        (case tool_map of
           PDict kvs \<Rightarrow>
             (if hashable tool_name
              then (Inr (case dict_lookup kvs tool_name of Some v \<Rightarrow> v | None \<Rightarrow> PNone), w)
              else (Inl TypeError, w))
         | PObj c attrs \<Rightarrow>
             (case map_of attrs ''get'' of
                None \<Rightarrow> (Inl AttributeError, w)
              | Some g \<Rightarrow> py_call rt g [tool_name] (PDict []) w)
         | _ \<Rightarrow> (Inl AttributeError, w))
      else (Inr PNone, w))"

definition quoted :: "string \<Rightarrow> string" where
  "quoted s = CHR 0x27 # s @ [CHR 0x27]"

definition tool_entry :: "string \<Rightarrow> pyval \<Rightarrow> pyval" where
  "tool_entry content tool_name =
     PDict [(PStr ''role'', PStr ''tool''), (PStr ''content'', PStr content),
            (PStr ''tool_name'', tool_name)]"

definition not_found_entry :: "'w runtime \<Rightarrow> pyval \<Rightarrow> pyval" where
  "not_found_entry rt tool_name =
     tool_entry (''Tool '' @ quoted (py_str rt tool_name) @ '' not found.'')
       (py_or tool_name (PStr ''unknown_tool''))"

definition failed_content :: "'w runtime \<Rightarrow> pyval \<Rightarrow> string \<Rightarrow> string" where
  "failed_content rt tool_name m =
     ''Tool '' @ quoted (py_str rt tool_name) @ '' execution failed: '' @ m"

text \<open>Lines 117 to 123: textual arguments are decoded, a decode failure gives \<^verbatim>\<open>{}\<close>.\<close>

definition decode_args :: "'w runtime \<Rightarrow> pyval \<Rightarrow> pyval" where
  "decode_args rt tool_args =
     (case tool_args of
        PStr s \<Rightarrow> (case json_loads rt s of Some v \<Rightarrow> v | None \<Rightarrow> PDict [])
      | _ \<Rightarrow> tool_args)"

text \<open>
  Lines 125 to 137: the call stands in a \<^verbatim>\<open>try\<close> whose handler is
  \<^verbatim>\<open>except Exception\<close>, so an exception whose class does not derive from
  \<^verbatim>\<open>Exception\<close> propagates.
\<close>

definition tool_call_step ::
  "'w runtime \<Rightarrow> nat \<Rightarrow> pyval \<Rightarrow> pyval \<Rightarrow> 'w driver_state \<Rightarrow> (py_error + unit) \<times> 'w driver_state" where
  "tool_call_step rt messages tool_map tool_call st =
     (case extract_tool_call_parts tool_call of
        (tool_name, tool_args) \<Rightarrow>
          (case registry_get rt tool_map tool_name (world st) of
             (Inl e, w1) \<Rightarrow> (Inl e, st\<lparr>world := w1\<rparr>)
           | (Inr tool_fn, w1) \<Rightarrow>
               if \<not> callable_py tool_fn
               then (Inr (), append_msg messages (not_found_entry rt tool_name) (st\<lparr>world := w1\<rparr>))
               else
                 (let f = resolve_callable tool_fn;
                      kw = py_or (decode_args rt tool_args) (PDict []);
                      st2 = st\<lparr>trace := trace st @ [Tool_Call f kw]\<rparr>
                  in case call rt f [] kw w1 of
                       (Returns result, w2) \<Rightarrow>
                         (Inr (), append_msg messages (tool_entry (py_str rt result) tool_name)
                                    (st2\<lparr>world := w2\<rparr>))
                     | (Raises b m, w2) \<Rightarrow>
                         if b
                         then (Inr (), append_msg messages
                                         (tool_entry (failed_content rt tool_name m) tool_name)
                                         (st2\<lparr>world := w2\<rparr>))
                         else (Inl (Raised b m), st2\<lparr>world := w2\<rparr>))))"

fun for_tool_calls ::
  "'w runtime \<Rightarrow> nat \<Rightarrow> pyval \<Rightarrow> pyval list \<Rightarrow> 'w driver_state \<Rightarrow> (py_error + unit) \<times> 'w driver_state" where
  "for_tool_calls rt messages tool_map [] st = (Inr (), st)"
| "for_tool_calls rt messages tool_map (tool_call # rest) st =
     (case tool_call_step rt messages tool_map tool_call st of
        (Inl e, st') \<Rightarrow> (Inl e, st')
      | (Inr u, st') \<Rightarrow> for_tool_calls rt messages tool_map rest st')"

section \<open>One turn and the loop (lines 87 to 140)\<close>

text \<open>
  The keyword arguments of the backend call at line 88; the backend reads the
  transcript as it stands at the call.
\<close>

definition backend_kwargs ::
  "pyval \<Rightarrow> pyval \<Rightarrow> pyval list \<Rightarrow> pyval \<Rightarrow> (string \<times> pyval) list \<Rightarrow> pyval" where
  "backend_kwargs model tools msgs options chat_kwargs =
     PDict ([(PStr ''model'', model), (PStr ''tools'', tools), (PStr ''messages'', PList msgs),
             (PStr ''options'', options)] @ map (\<lambda>(k, v). (PStr k, v)) chat_kwargs)"

text \<open>How a turn ends: the function returns (line 101), or the loop goes on.\<close>

datatype flow = Return_Now pyval | Next_Turn pyval

definition chat_turn ::
  "'w runtime \<Rightarrow> pyval \<Rightarrow> nat \<Rightarrow> pyval \<Rightarrow> pyval \<Rightarrow> pyval \<Rightarrow> pyval \<Rightarrow> (string \<times> pyval) list \<Rightarrow>
   'w driver_state \<Rightarrow> (py_error + flow) \<times> 'w driver_state" where
  "chat_turn rt client_fn messages options model tools tool_map chat_kwargs st =
     (let kw = backend_kwargs model tools (heap st messages) options chat_kwargs;
          st0 = st\<lparr>trace := trace st @ [Backend_Call kw]\<rparr>
      in case py_call rt client_fn [] kw (world st) of
           (Inl e, w1) \<Rightarrow> (Inl e, st0\<lparr>world := w1\<rparr>)
         | (Inr response, w1) \<Rightarrow>
             (case attr_py response ''message'' of
                Inl e \<Rightarrow> (Inl e, st0\<lparr>world := w1\<rparr>)
              | Inr assistant_msg \<Rightarrow>
                  (case to_msg_dict rt assistant_msg w1 of
                     (Inl e, w2) \<Rightarrow> (Inl e, st0\<lparr>world := w2\<rparr>)
                   | (Inr d, w2) \<Rightarrow>
                       (let st3 = append_msg messages d (st0\<lparr>world := w2\<rparr>);
                            tool_calls = py_or (getattr_py assistant_msg ''tool_calls'' PNone) (PList [])
                        in if \<not> truthy tool_calls then (Inr (Return_Now response), st3)
                           else (case iter_py tool_calls of
                                   Inl e \<Rightarrow> (Inl e, st3)
                                 | Inr tcs \<Rightarrow>
                                     (case for_tool_calls rt messages tool_map tcs st3 of
                                        (Inl e, st4) \<Rightarrow> (Inl e, st4)
                                      | (Inr u, st4) \<Rightarrow> (Inr (Next_Turn response), st4)))))))"

text \<open>
  \<open>turns \<dots> n last_response\<close> is the \<^verbatim>\<open>for\<close> loop with \<open>n\<close> iterations left; when
  they are used up, line 140 returns \<^verbatim>\<open>last_response\<close>.
\<close>

fun turns ::
  "'w runtime \<Rightarrow> pyval \<Rightarrow> nat \<Rightarrow> pyval \<Rightarrow> pyval \<Rightarrow> pyval \<Rightarrow> pyval \<Rightarrow> (string \<times> pyval) list \<Rightarrow>
   nat \<Rightarrow> pyval \<Rightarrow> 'w driver_state \<Rightarrow> (py_error + pyval) \<times> 'w driver_state" where
  "turns rt client_fn messages options model tools tool_map chat_kwargs 0 last_response st =
     (Inr last_response, st)"
| "turns rt client_fn messages options model tools tool_map chat_kwargs (Suc n) last_response st =
     (case chat_turn rt client_fn messages options model tools tool_map chat_kwargs st of
        (Inl e, st') \<Rightarrow> (Inl e, st')
      | (Inr (Return_Now response), st') \<Rightarrow> (Inr response, st')
      | (Inr (Next_Turn response), st') \<Rightarrow>
          turns rt client_fn messages options model tools tool_map chat_kwargs n response st')"

section \<open>The driver (lines 4 to 140)\<close>

definition reserved :: "string list" where
  "reserved = [''model'', ''tools'', ''messages'', ''options'', ''max_turns'', ''tool_map'']"

definition chat_kwargs_of :: "(string \<times> pyval) list \<Rightarrow> (string \<times> pyval) list" where
  "chat_kwargs_of kwargs = filter (\<lambda>(k, v). k \<notin> set reserved) kwargs"

text \<open>
  The result is the returned pair \<^verbatim>\<open>(last_response, messages)\<close>, the second
  component being the reference of the list, or the exception raised; the state holds
  the list's final content in both cases.
\<close>

definition ollama_automatic_function_calling ::
  "'w runtime \<Rightarrow> pyval \<Rightarrow> nat \<Rightarrow> pyval \<Rightarrow> (string \<times> pyval) list \<Rightarrow> 'w driver_state \<Rightarrow>
   (py_error + pyval \<times> nat) \<times> 'w driver_state" where
  "ollama_automatic_function_calling rt client_fn messages options kwargs st =
     (let model = kwargs_get kwargs ''model'' PNone
      in if model = PNone then (Inl (ValueError ''model must be specified''), st)
         else
           (let max_turns = kwargs_get kwargs ''max_turns'' (PInt 20);
                tools = kwargs_get kwargs ''tools'' PNone
            in case build_tool_map (kwargs_get kwargs ''tool_map'' PNone) tools of
                 Inl e \<Rightarrow> (Inl e, st)
               | Inr tool_map \<Rightarrow>
                   if \<not> callable_py client_fn
                   then (Inl (ValueError ''client_fn must be a callable''), st)
                   else
                     (case range_py max_turns of
                        Inl e \<Rightarrow> (Inl e, st)
                      | Inr n \<Rightarrow>
                          (case turns rt client_fn messages options model tools tool_map
                                  (chat_kwargs_of kwargs) n PNone st of
                             (Inl e, st') \<Rightarrow> (Inl e, st')
                           | (Inr last_response, st') \<Rightarrow> (Inr (last_response, messages), st')))))"

section \<open>Stating the properties\<close>

text \<open>
  What a run added: \<open>appended a st st'\<close> are the entries the list at \<open>a\<close> gained between
  the states \<open>st\<close> and \<open>st'\<close>, \<open>logged st st'\<close> the calls made in between, and
  \<open>grows a st st'\<close> says that nothing else happened to the heap and the log.
\<close>

definition appended :: "nat \<Rightarrow> 'w driver_state \<Rightarrow> 'w driver_state \<Rightarrow> pyval list" where
  "appended a st st' = drop (length (heap st a)) (heap st' a)"

definition logged :: "'w driver_state \<Rightarrow> 'w driver_state \<Rightarrow> event list" where
  "logged st st' = drop (length (trace st)) (trace st')"

definition grows :: "nat \<Rightarrow> 'w driver_state \<Rightarrow> 'w driver_state \<Rightarrow> bool" where
  "grows a st st' \<longleftrightarrow>
     heap st' = (heap st)(a := heap st a @ appended a st st') \<and>
     trace st' = trace st @ logged st st'"

fun is_backend_call :: "event \<Rightarrow> bool" where
  "is_backend_call (Backend_Call kw) = True"
| "is_backend_call (Tool_Call f kw) = False"

fun has_key :: "pyval \<Rightarrow> string \<Rightarrow> bool" where
  "has_key (PDict kvs) k = (dict_lookup kvs (PStr k) \<noteq> None)"
| "has_key v k = False"

definition entry_ok :: "pyval \<Rightarrow> bool" where
  "entry_ok e \<longleftrightarrow>
     has_key e ''role'' \<and> (dict_get e ''role'' PNone = PStr ''tool'' \<longrightarrow> has_key e ''tool_name'')"

text \<open>
  The part of the backend's contract (section 6 of the specification) that concerns the
  transcript: the assistant message of every response normalises to an entry that
  carries a role, and a \<^verbatim>\<open>tool_name\<close> if that role is \<^verbatim>\<open>tool\<close>.
\<close>

definition backend_entries_ok :: "'w runtime \<Rightarrow> pyval \<Rightarrow> bool" where
  "backend_entries_ok rt client_fn \<longleftrightarrow>
     (\<forall>kw w r w1 m d w2.
        call rt client_fn [] kw w = (Returns r, w1) \<longrightarrow> attr_py r ''message'' = Inr m \<longrightarrow>
        to_msg_dict rt m w1 = (Inr d, w2) \<longrightarrow> entry_ok d)"






section \<open>Example backends and tools\<close>

text \<open>
  Concrete callables for the instances below. The world counts the backend calls made
  so far; the backend answers the call number \<open>w\<close> with \<open>script w\<close>.
  \<open>example_json_loads\<close> is \<^verbatim>\<open>json.loads\<close> on the two texts of the specification's
  example; it is asked for no other text.
\<close>

definition chat_backend :: pyval where "chat_backend = PObj (Some 0) []"
definition add_tool :: pyval where "add_tool = PObj (Some 1) [(''__name__'', PStr ''add'')]"
definition failing_tool :: pyval where "failing_tool = PObj (Some 2) [(''__name__'', PStr ''div'')]"
definition broken_backend :: pyval where "broken_backend = PObj (Some 3) []"

definition tool_request :: "pyval \<Rightarrow> pyval \<Rightarrow> pyval" where
  "tool_request name arguments =
     PObj None [(''function'', PObj None [(''name'', name), (''arguments'', arguments)])]"

definition reply :: "string \<Rightarrow> pyval list \<Rightarrow> pyval" where
  "reply content tool_calls =
     PObj None [(''message'', PObj None [(''role'', PStr ''assistant''), (''content'', PStr content),
                                         (''tool_calls'', PList tool_calls)])]"

definition example_json_loads :: "string \<Rightarrow> pyval option" where
  \<open>example_json_loads s =
     (if s = ''{"a": 1, "b": 2}'' then Some (PDict [(PStr ''a'', PInt 1), (PStr ''b'', PInt 2)])
      else None)\<close>

definition scripted_runtime :: "(nat \<Rightarrow> pyval) \<Rightarrow> nat runtime" where
  "scripted_runtime script =
     \<lparr>call = (\<lambda>f args kw w.
        if f = chat_backend then (Returns (script w), Suc w)
        else if f = add_tool then
          (case (dict_get kw ''a'' PNone, dict_get kw ''b'' PNone) of
             (PInt x, PInt y) \<Rightarrow> (Returns (PInt (x + y)), w)
           | _ \<Rightarrow> (Raises True ''add() missing required arguments'', w))
        else if f = failing_tool then (Raises True ''division by zero'', w)
        else if f = broken_backend then (Raises True ''connection refused'', w)
        else (Raises True ''object is not callable'', w)),
      json_loads = example_json_loads,
      str_other = (\<lambda>v. ''<object>'')\<rparr>"

definition user_state :: "nat driver_state" where
  "user_state = \<lparr>heap = (\<lambda>a. if a = 0 then [PDict [(PStr ''role'', PStr ''user''), (PStr ''content'', PStr ''4+7'')]] else []),
                  trace = [], world = 0\<rparr>"

definition two_turns :: "nat \<Rightarrow> pyval" where
  "two_turns w = (if w = 0 then reply '''' [tool_request (PStr ''add'') (PDict [(PStr ''a'', PInt 4), (PStr ''b'', PInt 7)])] else reply ''11'' [])"

definition direct_answer :: "nat \<Rightarrow> pyval" where
  "direct_answer w = reply ''hello'' []"

definition demo_tool_map :: pyval where
  "demo_tool_map = PDict [(PStr ''add'', add_tool), (PStr ''div'', failing_tool)]"

definition nameless_request :: pyval where
  "nameless_request = PDict [(PStr ''function'', PDict [(PStr ''arguments'', PDict [])])]"



section \<open>What a run does to the transcript and the log\<close>

lemma grows_refl: "grows a st st" "appended a st st = []" "logged st st = []"
  by (simp_all add: grows_def appended_def logged_def)

lemma grows_world [simp]:
  "grows a st (st'\<lparr>world := w\<rparr>) = grows a st st'"
  "appended a st (st'\<lparr>world := w\<rparr>) = appended a st st'"
  "logged st (st'\<lparr>world := w\<rparr>) = logged st st'"
  by (simp_all add: grows_def appended_def logged_def)

lemma grows_trans:
  assumes "grows a st st1" and "grows a st1 st2"
  shows "grows a st st2 \<and> appended a st st2 = appended a st st1 @ appended a st1 st2 \<and>
         logged st st2 = logged st st1 @ logged st1 st2"
proof -
  have h1: "heap st1 a = heap st a @ appended a st st1"
    using assms(1) by (metis fun_upd_same grows_def)
  have h2: "heap st2 a = heap st1 a @ appended a st1 st2"
    using assms(2) by (metis fun_upd_same grows_def)
  have t1: "trace st1 = trace st @ logged st st1" using assms(1) by (simp add: grows_def)
  have t2: "trace st2 = trace st1 @ logged st1 st2" using assms(2) by (simp add: grows_def)
  have a: "appended a st st2 = appended a st st1 @ appended a st1 st2"
    unfolding appended_def[of a st st2] h2 h1 by simp
  have l: "logged st st2 = logged st st1 @ logged st1 st2"
    unfolding logged_def[of st st2] t2 t1 by simp
  have "heap st2 = (heap st1)(a := heap st1 a @ appended a st1 st2)"
    using assms(2) by (simp add: grows_def)
  also have "\<dots> = (heap st)(a := heap st a @ appended a st st2)"
    using assms(1) a h1 by (metis append.assoc fun_upd_upd grows_def)
  finally have "heap st2 = (heap st)(a := heap st a @ appended a st st2)" .
  moreover have "trace st2 = trace st @ logged st st2" using t1 t2 l by simp
  ultimately show ?thesis using a l by (simp add: grows_def)
qed

lemma grows_append_log:
  "grows a st (st\<lparr>trace := trace st @ evs, heap := (heap st)(a := heap st a @ es)\<rparr>)"
  "appended a st (st\<lparr>trace := trace st @ evs, heap := (heap st)(a := heap st a @ es)\<rparr>) = es"
  "logged st (st\<lparr>trace := trace st @ evs, heap := (heap st)(a := heap st a @ es)\<rparr>) = evs"
  by (simp_all add: grows_def appended_def logged_def)

lemma tool_entry_ok [simp]: "entry_ok (tool_entry c n)"
  by (simp add: entry_ok_def tool_entry_def)

lemma tool_call_step_effect:
  assumes "tool_call_step rt a tm tc st = (r, st')"
  shows "grows a st st' \<and> list_all entry_ok (appended a st st') \<and>
         \<not> list_ex is_backend_call (logged st st') \<and> length (appended a st st') \<le> 1 \<and>
         (r = Inr () \<longrightarrow> length (appended a st st') = 1)"
  using assms
  by (auto simp: tool_call_step_def append_msg_def Let_def grows_def appended_def logged_def
        not_found_entry_def
      split: prod.splits sum.splits if_splits outcome.splits)


lemma for_tool_calls_effect:
  "for_tool_calls rt a tm tcs st = (r, st') \<Longrightarrow>
   grows a st st' \<and> list_all entry_ok (appended a st st') \<and>
   \<not> list_ex is_backend_call (logged st st') \<and> length (appended a st st') \<le> length tcs \<and>
   (r = Inr () \<longrightarrow> length (appended a st st') = length tcs)"
proof (induction tcs arbitrary: st)
  case Nil
  then show ?case by (auto simp: grows_refl)
next
  case (Cons tc tcs)
  obtain r1 st1 where s1: "tool_call_step rt a tm tc st = (r1, st1)" by force
  note e1 = tool_call_step_effect [OF s1]
  show ?case
  proof (cases r1)
    case (Inl e)
    with Cons.prems s1 have "r = Inl e" "st' = st1" by auto
    with e1 show ?thesis by auto
  next
    case (Inr u)
    with Cons.prems s1 have s2: "for_tool_calls rt a tm tcs st1 = (r, st')" by auto
    note e2 = Cons.IH [OF s2]
    from e1 e2 have t: "grows a st st' \<and> appended a st st' = appended a st st1 @ appended a st1 st' \<and>
         logged st st' = logged st st1 @ logged st1 st'"
      using grows_trans by blast
    from Inr e1 have "length (appended a st st1) = 1" by simp
    with t e1 e2 show ?thesis by auto
  qed
qed

lemma chat_turn_effect:
  assumes "chat_turn rt client_fn a options model tools tm ckw st = (r, st')"
  shows "grows a st st' \<and>
         logged st st' \<noteq> [] \<and>
         hd (logged st st') = Backend_Call (backend_kwargs model tools (heap st a) options ckw) \<and>
         \<not> list_ex is_backend_call (tl (logged st st')) \<and>
         (backend_entries_ok rt client_fn \<longrightarrow> list_all entry_ok (appended a st st'))"
proof -
  define kw where "kw = backend_kwargs model tools (heap st a) options ckw"
  define st0 where "st0 = st\<lparr>trace := trace st @ [Backend_Call kw]\<rparr>"
  have g0: "\<And>w. grows a st (st0\<lparr>world := w\<rparr>)" "\<And>w. appended a st (st0\<lparr>world := w\<rparr>) = []"
    "\<And>w. logged st (st0\<lparr>world := w\<rparr>) = [Backend_Call kw]"
    by (simp_all add: st0_def grows_def appended_def logged_def)
  obtain r1 w1 where c: "py_call rt client_fn [] kw (world st) = (r1, w1)" by force
  show ?thesis
  proof (cases r1)
    case (Inl e)
    with assms c have "st' = st0\<lparr>world := w1\<rparr>"
      by (simp add: chat_turn_def Let_def kw_def st0_def)
    with g0 show ?thesis by (simp add: kw_def)
  next
    case (Inr response)
    note r1 = this
    have cr: "call rt client_fn [] kw (world st) = (Returns response, w1)"
      using c r1 by (auto simp: py_call_def split: prod.splits outcome.splits)
    show ?thesis
    proof (cases "attr_py response ''message''")
      case (Inl e)
      with assms c r1 have "st' = st0\<lparr>world := w1\<rparr>"
        by (simp add: chat_turn_def Let_def kw_def st0_def)
      with g0 show ?thesis by (simp add: kw_def)
    next
      case (Inr m)
      note m = this
      obtain r2 w2 where n: "to_msg_dict rt m w1 = (r2, w2)" by force
      show ?thesis
      proof (cases r2)
        case (Inl e)
        with assms c r1 m n have "st' = st0\<lparr>world := w2\<rparr>"
          by (simp add: chat_turn_def Let_def kw_def st0_def)
        with g0 show ?thesis by (simp add: kw_def)
      next
        case (Inr d)
        define st3 where "st3 = append_msg a d (st0\<lparr>world := w2\<rparr>)"
        have g3: "grows a st st3" "appended a st st3 = [d]" "logged st st3 = [Backend_Call kw]"
          by (simp_all add: st3_def st0_def append_msg_def grows_def appended_def logged_def)
        have dok: "backend_entries_ok rt client_fn \<longrightarrow> entry_ok d"
          using cr m n Inr by (auto simp: backend_entries_ok_def)
        define tool_calls where
          "tool_calls = py_or (getattr_py m ''tool_calls'' PNone) (PList [])"
        show ?thesis
        proof (cases "truthy tool_calls")
          case False
          with assms c r1 m n Inr have "st' = st3"
            by (simp add: chat_turn_def Let_def kw_def st0_def st3_def tool_calls_def)
          with g3 dok show ?thesis by (simp add: kw_def)
        next
          case True
          show ?thesis
          proof (cases "iter_py tool_calls")
            case (Inl e)
            with True assms c r1 m n Inr have "st' = st3"
              by (simp add: chat_turn_def Let_def kw_def st0_def st3_def tool_calls_def)
            with g3 dok show ?thesis by (simp add: kw_def)
          next
            case (Inr tcs)
            obtain r4 st4 where f: "for_tool_calls rt a tm tcs st3 = (r4, st4)" by force
            with True assms c r1 m n Inr \<open>r2 = Inr d\<close> have "st' = st4"
              by (auto simp add: chat_turn_def Let_def kw_def st0_def st3_def tool_calls_def
                  split: sum.splits)
            moreover note e4 = for_tool_calls_effect [OF f]
            moreover from e4 g3 have "grows a st st4 \<and>
                appended a st st4 = appended a st st3 @ appended a st3 st4 \<and>
                logged st st4 = logged st st3 @ logged st3 st4"
              using grows_trans by blast
            ultimately show ?thesis using g3 dok by (auto simp: kw_def)
          qed
        qed
      qed
    qed
  qed
qed

lemma turns_effect:
  "turns rt client_fn a options model tools tm ckw n lr st = (r, st') \<Longrightarrow>
   grows a st st' \<and>
   length (filter is_backend_call (logged st st')) \<le> n \<and>
   (\<forall>ev \<in> set (logged st st'). is_backend_call ev \<longrightarrow>
      (\<exists>msgs. ev = Backend_Call (backend_kwargs model tools msgs options ckw))) \<and>
   (backend_entries_ok rt client_fn \<longrightarrow> list_all entry_ok (appended a st st'))"
proof (induction n arbitrary: st lr)
  case 0
  then show ?case by (auto simp: grows_refl)
next
  case (Suc n)
  obtain r1 st1 where t: "chat_turn rt client_fn a options model tools tm ckw st = (r1, st1)"
    by force
  note e1 = chat_turn_effect [OF t]
  from e1 obtain evs where l1: "logged st st1 = Backend_Call (backend_kwargs model tools (heap st a) options ckw) # evs"
    and nb: "\<not> list_ex is_backend_call evs"
    by (cases "logged st st1") auto
  have f1: "filter is_backend_call (logged st st1) = [Backend_Call (backend_kwargs model tools (heap st a) options ckw)]"
    using l1 nb by (simp add: list_ex_iff filter_empty_conv)
  have p1: "\<forall>ev \<in> set (logged st st1). is_backend_call ev \<longrightarrow>
      (\<exists>msgs. ev = Backend_Call (backend_kwargs model tools msgs options ckw))"
    using l1 nb by (auto simp: list_ex_iff)
  show ?case
  proof (cases "\<exists>response. r1 = Inr (Next_Turn response)")
    case False
    with Suc.prems t have "st' = st1"
      by (auto split: sum.splits flow.splits)
    with e1 f1 p1 show ?thesis by simp
  next
    case True
    then obtain response where "r1 = Inr (Next_Turn response)" by blast
    with Suc.prems t have s2: "turns rt client_fn a options model tools tm ckw n response st1 = (r, st')"
      by simp
    note e2 = Suc.IH [OF s2]
    from e1 e2 have g: "grows a st st' \<and> appended a st st' = appended a st st1 @ appended a st1 st' \<and>
         logged st st' = logged st st1 @ logged st1 st'"
      using grows_trans by blast
    with e1 e2 f1 p1 show ?thesis by auto
  qed
qed


lemma driver_effect:
  assumes "ollama_automatic_function_calling rt client_fn a options kwargs st = (r, st')"
  shows "grows a st st' \<and>
         (\<forall>n. range_py (kwargs_get kwargs ''max_turns'' (PInt 20)) = Inr n \<longrightarrow>
              length (filter is_backend_call (logged st st')) \<le> n) \<and>
         (\<forall>ev \<in> set (logged st st'). is_backend_call ev \<longrightarrow>
            (\<exists>msgs. ev = Backend_Call (backend_kwargs (kwargs_get kwargs ''model'' PNone)
                       (kwargs_get kwargs ''tools'' PNone) msgs options (chat_kwargs_of kwargs)))) \<and>
         (backend_entries_ok rt client_fn \<longrightarrow> list_all entry_ok (appended a st st')) \<and>
         (\<forall>res b. r = Inr (res, b) \<longrightarrow> b = a)"
proof (cases "\<exists>tm n. kwargs_get kwargs ''model'' PNone \<noteq> PNone \<and>
    build_tool_map (kwargs_get kwargs ''tool_map'' PNone) (kwargs_get kwargs ''tools'' PNone) = Inr tm \<and>
    callable_py client_fn \<and> range_py (kwargs_get kwargs ''max_turns'' (PInt 20)) = Inr n")
  case False
  with assms have "st' = st" "\<exists>e. r = Inl e"
    by (auto simp: ollama_automatic_function_calling_def Let_def split: sum.splits if_splits)
  then show ?thesis by (auto simp: grows_refl)
next
  case True
  then obtain tm n where h: "kwargs_get kwargs ''model'' PNone \<noteq> PNone"
    "build_tool_map (kwargs_get kwargs ''tool_map'' PNone) (kwargs_get kwargs ''tools'' PNone) = Inr tm"
    "callable_py client_fn" "range_py (kwargs_get kwargs ''max_turns'' (PInt 20)) = Inr n"
    by blast
  obtain r1 st1 where t: "turns rt client_fn a options (kwargs_get kwargs ''model'' PNone)
      (kwargs_get kwargs ''tools'' PNone) tm (chat_kwargs_of kwargs) n PNone st = (r1, st1)"
    by force
  from assms h t have "st' = st1" "\<forall>res b. r = Inr (res, b) \<longrightarrow> b = a"
    by (auto simp: ollama_automatic_function_calling_def Let_def split: sum.splits)
  with turns_effect [OF t] h show ?thesis by simp
qed



lemma dict_lookup_append:
  "dict_lookup (xs @ ys) k = (case dict_lookup xs k of Some v \<Rightarrow> Some v | None \<Rightarrow> dict_lookup ys k)"
  by (induction xs) auto

lemma dict_update_fresh:
  "dict_lookup tm k = None \<Longrightarrow> dict_update tm k v = tm @ [(k, v)]"
  by (induction tm) (auto split: if_splits)

lemma register_tools_fresh:
  assumes "map infer_tool_name ts = map PStr ns" and "distinct ns" and "[] \<notin> set ns"
    and "\<forall>n \<in> set ns. dict_lookup tm (PStr n) = None"
  shows "register_tools ts tm = Inr (tm @ zip (map PStr ns) ts)"
  using assms
proof (induction ts arbitrary: ns tm)
  case Nil
  then show ?case by simp
next
  case (Cons t ts)
  then obtain n ns' where ns: "ns = n # ns'" by (cases ns) auto
  with Cons.prems have n: "infer_tool_name t = PStr n" "n \<noteq> []" "n \<notin> set ns'"
    and r: "map infer_tool_name ts = map PStr ns'" "distinct ns'" "[] \<notin> set ns'"
    and f: "dict_lookup tm (PStr n) = None" "\<forall>m \<in> set ns'. dict_lookup tm (PStr m) = None"
    by auto
  have u: "dict_set tm (PStr n) t = Inr (tm @ [(PStr n, t)])"
    using f(1) by (simp add: dict_set_def dict_update_fresh)
  have "\<forall>m \<in> set ns'. dict_lookup (tm @ [(PStr n, t)]) (PStr m) = None"
    using f(2) n(3) by (auto simp: dict_lookup_append)
  from Cons.IH [OF r this] n u show ?case
    by (simp add: ns)
qed

lemma tool_call_step_cong:
  assumes "\<And>name w. registry_get rt tm1 name w = registry_get rt tm2 name w"
  shows "tool_call_step rt a tm1 tc st = tool_call_step rt a tm2 tc st"
  by (simp add: tool_call_step_def assms)

lemma for_tool_calls_cong:
  assumes "\<And>name w. registry_get rt tm1 name w = registry_get rt tm2 name w"
  shows "for_tool_calls rt a tm1 tcs st = for_tool_calls rt a tm2 tcs st"
  by (induction tcs arbitrary: st)
     (simp_all add: tool_call_step_cong [OF assms] split: prod.splits sum.splits)

lemma chat_turn_cong:
  assumes "\<And>name w. registry_get rt tm1 name w = registry_get rt tm2 name w"
  shows "chat_turn rt c a opts model tools tm1 ckw st = chat_turn rt c a opts model tools tm2 ckw st"
  unfolding chat_turn_def for_tool_calls_cong [OF assms] ..

lemma turns_cong:
  assumes "\<And>name w. registry_get rt tm1 name w = registry_get rt tm2 name w"
  shows "turns rt c a opts model tools tm1 ckw n lr st = turns rt c a opts model tools tm2 ckw n lr st"
  by (induction n arbitrary: lr st)
     (simp_all add: chat_turn_cong [OF assms] split: prod.splits sum.splits flow.splits)

lemma kwargs_get_append_other:
  "k \<noteq> k' \<Longrightarrow> kwargs_get (kwargs @ [(k', v)]) k d = kwargs_get kwargs k d"
  by (simp add: kwargs_get_def map_add_def split: option.split)

lemma kwargs_get_append_new:
  "map_of kwargs k = None \<Longrightarrow> kwargs_get (kwargs @ [(k, v)]) k d = v"
  by (simp add: kwargs_get_def map_add_def)

lemma driver_unfold:
  assumes "build_tool_map (kwargs_get kwargs ''tool_map'' PNone) (kwargs_get kwargs ''tools'' PNone)
             = Inr tm"
  shows "ollama_automatic_function_calling rt client_fn a options kwargs st =
     (if kwargs_get kwargs ''model'' PNone = PNone
      then (Inl (ValueError ''model must be specified''), st)
      else if \<not> callable_py client_fn
      then (Inl (ValueError ''client_fn must be a callable''), st)
      else (case range_py (kwargs_get kwargs ''max_turns'' (PInt 20)) of
              Inl e \<Rightarrow> (Inl e, st)
            | Inr n \<Rightarrow>
                (case turns rt client_fn a options (kwargs_get kwargs ''model'' PNone)
                        (kwargs_get kwargs ''tools'' PNone) tm (chat_kwargs_of kwargs) n PNone st of
                   (Inl e, st') \<Rightarrow> (Inl e, st')
                 | (Inr last_response, st') \<Rightarrow> (Inr (last_response, a), st'))))"
  using assms by (simp add: ollama_automatic_function_calling_def Let_def)












section \<open>The claims\<close>



text \<open>
  C2. For \<^verbatim>\<open>max_turns = N\<close> a run makes at most \<open>N\<close> backend calls, whatever else
  happens (also when it ends with an exception). And when the first response asks for no
  tool call (its \<^verbatim>\<open>tool_calls\<close> is missing, \<^verbatim>\<open>None\<close> or empty), the run makes
  exactly that one backend call, appends exactly the normalised assistant message and
  returns the response with the supplied list.
\<close>

theorem backend_invocations_bounded:
  "(\<forall>N. map_of kwargs ''max_turns'' = Some (PInt N) \<longrightarrow>
      (\<exists>evs. trace (snd (ollama_automatic_function_calling rt client_fn messages options kwargs st))
               = trace st @ evs \<and>
             int (length (filter is_backend_call evs)) \<le> max 0 N)) \<and>
   (kwargs_get kwargs ''model'' PNone \<noteq> PNone \<and> callable_py client_fn \<and>
    build_tool_map (kwargs_get kwargs ''tool_map'' PNone) (kwargs_get kwargs ''tools'' PNone)
      = Inr tool_map \<and>
    range_py (kwargs_get kwargs ''max_turns'' (PInt 20)) = Inr (Suc k) \<and>
    call rt client_fn []
      (backend_kwargs (kwargs_get kwargs ''model'' PNone) (kwargs_get kwargs ''tools'' PNone)
         (heap st messages) options (chat_kwargs_of kwargs)) (world st) = (Returns response, w1) \<and>
    attr_py response ''message'' = Inr m \<and>
    \<not> truthy (getattr_py m ''tool_calls'' PNone) \<and>
    to_msg_dict rt m w1 = (Inr d, w2)
    \<longrightarrow> ollama_automatic_function_calling rt client_fn messages options kwargs st
        = (Inr (response, messages),
           st\<lparr>heap := (heap st)(messages := heap st messages @ [d]),
              trace := trace st @ [Backend_Call
                (backend_kwargs (kwargs_get kwargs ''model'' PNone) (kwargs_get kwargs ''tools'' PNone)
                   (heap st messages) options (chat_kwargs_of kwargs))],
              world := w2\<rparr>))"
proof (intro conjI allI impI)
  fix N
  assume mt: "map_of kwargs ''max_turns'' = Some (PInt N)"
  obtain r st' where run: "ollama_automatic_function_calling rt client_fn messages options kwargs st = (r, st')"
    by force
  have rg: "range_py (kwargs_get kwargs ''max_turns'' (PInt 20)) = Inr (nat N)"
    using mt by (simp add: kwargs_get_def)
  from driver_effect [OF run] rg
  have "trace st' = trace st @ logged st st'"
    and "length (filter is_backend_call (logged st st')) \<le> nat N"
    by (simp_all add: grows_def)
  then show "\<exists>evs. trace (snd (ollama_automatic_function_calling rt client_fn messages options kwargs st))
               = trace st @ evs \<and> int (length (filter is_backend_call evs)) \<le> max 0 N"
    using run by (intro exI [of _ "logged st st'"]) auto
next
  assume h: "kwargs_get kwargs ''model'' PNone \<noteq> PNone \<and> callable_py client_fn \<and>
    build_tool_map (kwargs_get kwargs ''tool_map'' PNone) (kwargs_get kwargs ''tools'' PNone)
      = Inr tool_map \<and>
    range_py (kwargs_get kwargs ''max_turns'' (PInt 20)) = Inr (Suc k) \<and>
    call rt client_fn []
      (backend_kwargs (kwargs_get kwargs ''model'' PNone) (kwargs_get kwargs ''tools'' PNone)
         (heap st messages) options (chat_kwargs_of kwargs)) (world st) = (Returns response, w1) \<and>
    attr_py response ''message'' = Inr m \<and>
    \<not> truthy (getattr_py m ''tool_calls'' PNone) \<and>
    to_msg_dict rt m w1 = (Inr d, w2)"
  have nt: "\<not> truthy (py_or (getattr_py m ''tool_calls'' PNone) (PList []))"
    using h by (simp add: py_or_def)
  have turn: "chat_turn rt client_fn messages options (kwargs_get kwargs ''model'' PNone)
      (kwargs_get kwargs ''tools'' PNone) tool_map (chat_kwargs_of kwargs) st
      = (Inr (Return_Now response),
         st\<lparr>heap := (heap st)(messages := heap st messages @ [d]),
            trace := trace st @ [Backend_Call
              (backend_kwargs (kwargs_get kwargs ''model'' PNone) (kwargs_get kwargs ''tools'' PNone)
                 (heap st messages) options (chat_kwargs_of kwargs))],
            world := w2\<rparr>)"
    using h nt by (simp add: chat_turn_def Let_def py_call_def append_msg_def)
  show "ollama_automatic_function_calling rt client_fn messages options kwargs st
        = (Inr (response, messages),
           st\<lparr>heap := (heap st)(messages := heap st messages @ [d]),
              trace := trace st @ [Backend_Call
                (backend_kwargs (kwargs_get kwargs ''model'' PNone) (kwargs_get kwargs ''tools'' PNone)
                   (heap st messages) options (chat_kwargs_of kwargs))],
              world := w2\<rparr>)"
    using h turn by (simp add: ollama_automatic_function_calling_def Let_def)
qed

theorem backend_invocations_bounded_witness:
  "(\<exists>evs. trace (snd (ollama_automatic_function_calling (scripted_runtime two_turns) chat_backend 0
                         PNone [(''model'', PStr ''glm''), (''tools'', PList [add_tool]),
                                (''max_turns'', PInt 1)] user_state))
            = trace user_state @ evs \<and>
          int (length (filter is_backend_call evs)) \<le> max 0 1) \<and>
   ollama_automatic_function_calling (scripted_runtime direct_answer) chat_backend 0 PNone
     [(''model'', PStr ''glm'')] user_state
   = (Inr (reply ''hello'' [], 0),
      user_state\<lparr>heap := (heap user_state)
                    (0 := heap user_state 0 @
                       [PDict [(PStr ''role'', PStr ''assistant''), (PStr ''content'', PStr ''hello'')]]),
                 trace := trace user_state @
                    [Backend_Call (PDict [(PStr ''model'', PStr ''glm''), (PStr ''tools'', PNone),
                                          (PStr ''messages'', PList (heap user_state 0)),
                                          (PStr ''options'', PNone)])],
                 world := 1\<rparr>)"
proof -
  let ?kw1 = "[(''model'', PStr ''glm''), (''tools'', PList [add_tool]), (''max_turns'', PInt 1)]"
  let ?kw2 = "[(''model'', PStr ''glm'')]"
  let ?m = "PObj None [(''role'', PStr ''assistant''), (''content'', PStr ''hello''),
                       (''tool_calls'', PList [])]"
  let ?d = "PDict [(PStr ''role'', PStr ''assistant''), (PStr ''content'', PStr ''hello'')]"
  have a: "map_of ?kw1 ''max_turns'' = Some (PInt 1)"
    by simp
  have h: "kwargs_get ?kw2 ''model'' PNone \<noteq> PNone \<and> callable_py chat_backend \<and>
    build_tool_map (kwargs_get ?kw2 ''tool_map'' PNone) (kwargs_get ?kw2 ''tools'' PNone)
      = Inr PNone \<and>
    range_py (kwargs_get ?kw2 ''max_turns'' (PInt 20)) = Inr (Suc 19) \<and>
    call (scripted_runtime direct_answer) chat_backend []
      (backend_kwargs (kwargs_get ?kw2 ''model'' PNone) (kwargs_get ?kw2 ''tools'' PNone)
         (heap user_state 0) PNone (chat_kwargs_of ?kw2)) (world user_state)
      = (Returns (reply ''hello'' []), 1) \<and>
    attr_py (reply ''hello'' []) ''message'' = Inr ?m \<and>
    \<not> truthy (getattr_py ?m ''tool_calls'' PNone) \<and>
    to_msg_dict (scripted_runtime direct_answer) ?m 1 = (Inr ?d, 1)"
    by code_simp
  have v: "backend_kwargs (kwargs_get ?kw2 ''model'' PNone) (kwargs_get ?kw2 ''tools'' PNone)
         (heap user_state 0) PNone (chat_kwargs_of ?kw2)
      = PDict [(PStr ''model'', PStr ''glm''), (PStr ''tools'', PNone),
               (PStr ''messages'', PList (heap user_state 0)), (PStr ''options'', PNone)]"
    by code_simp
  from backend_invocations_bounded
         [of ?kw1 "scripted_runtime two_turns" chat_backend 0 PNone user_state] a
  have one: "\<exists>evs. trace (snd (ollama_automatic_function_calling (scripted_runtime two_turns)
                         chat_backend 0 PNone ?kw1 user_state))
            = trace user_state @ evs \<and>
          int (length (filter is_backend_call evs)) \<le> max 0 1"
    by blast
  from backend_invocations_bounded
         [of ?kw2 "scripted_runtime direct_answer" chat_backend 0 PNone user_state PNone 19
             "reply ''hello'' []" 1 ?m ?d 1] h
  have two: "ollama_automatic_function_calling (scripted_runtime direct_answer) chat_backend 0 PNone
     ?kw2 user_state
   = (Inr (reply ''hello'' [], 0),
      user_state\<lparr>heap := (heap user_state) (0 := heap user_state 0 @ [?d]),
                 trace := trace user_state @
                    [Backend_Call (backend_kwargs (kwargs_get ?kw2 ''model'' PNone)
                       (kwargs_get ?kw2 ''tools'' PNone) (heap user_state 0) PNone
                       (chat_kwargs_of ?kw2))],
                 world := 1\<rparr>)"
    by blast
  show ?thesis using one two unfolding v by blast
qed







text \<open>
  C5, as the code has it. A requested call whose name (a string, or absent) resolves to
  no callable, the registry being \<^verbatim>\<open>None\<close> or a dict: nothing is raised, the driver
  appends a tool entry and goes on with the remaining calls. The entry's
  \<^verbatim>\<open>tool_name\<close> is the name, or \<^verbatim>\<open>unknown_tool\<close> when the name is absent or empty;
  its \<^verbatim>\<open>content\<close> is \<^verbatim>\<open>Tool '<name>' not found.\<close> with the name formatted by the
  f-string of line 111, so that an absent name reads \<^verbatim>\<open>None\<close> there, not
  \<^verbatim>\<open>unknown_tool\<close>.
\<close>

theorem unknown_tool_is_reported:
  assumes "extract_tool_call_parts tool_call = (tool_name, tool_args)"
    and "tool_name = PNone \<or> tool_name = PStr s"
    and "tool_map = PNone \<or>
         (\<exists>kvs. tool_map = PDict kvs \<and>
                \<not> callable_py (case dict_lookup kvs tool_name of Some v \<Rightarrow> v | None \<Rightarrow> PNone))"
  shows "tool_call_step rt messages tool_map tool_call st =
           (Inr (),
            st\<lparr>heap := (heap st)(messages := heap st messages @
                     [PDict [(PStr ''role'', PStr ''tool''),
                             (PStr ''content'',
                              PStr (''Tool '' @ [CHR 0x27] @
                                    (if tool_name = PNone then ''None'' else s) @ [CHR 0x27] @
                                    '' not found.'')),
                             (PStr ''tool_name'',
                              if tool_name = PNone \<or> tool_name = PStr []
                              then PStr ''unknown_tool'' else tool_name)]])\<rparr>) \<and>
         for_tool_calls rt messages tool_map (tool_call # rest) st =
           for_tool_calls rt messages tool_map rest (snd (tool_call_step rt messages tool_map tool_call st))"
proof -
  have h: "hashable tool_name" using assms(2) by auto
  have "\<exists>tool_fn. registry_get rt tool_map tool_name (world st) = (Inr tool_fn, world st) \<and>
           \<not> callable_py tool_fn"
  proof (cases tool_map)
    case (PDict kvs)
    with assms(3) h show ?thesis
      by (cases "kvs = []") (simp_all add: registry_get_def)
  qed (use assms(3) in \<open>simp_all add: registry_get_def\<close>)
  then obtain tool_fn where g: "registry_get rt tool_map tool_name (world st) = (Inr tool_fn, world st)"
    and nc: "\<not> callable_py tool_fn"
    by blast
  have "tool_call_step rt messages tool_map tool_call st =
          (Inr (), append_msg messages (not_found_entry rt tool_name) st)"
    using assms(1) g nc by (simp add: tool_call_step_def)
  moreover have "not_found_entry rt tool_name =
      PDict [(PStr ''role'', PStr ''tool''),
             (PStr ''content'',
              PStr (''Tool '' @ [CHR 0x27] @ (if tool_name = PNone then ''None'' else s) @
                    [CHR 0x27] @ '' not found.'')),
             (PStr ''tool_name'',
              if tool_name = PNone \<or> tool_name = PStr [] then PStr ''unknown_tool'' else tool_name)]"
    using assms(2)
    by (auto simp: not_found_entry_def tool_entry_def quoted_def py_str_def py_or_def)
  ultimately show ?thesis by (simp add: append_msg_def)
qed

theorem unknown_tool_is_reported_witness:
  "tool_call_step (scripted_runtime two_turns) 0 demo_tool_map
     (tool_request (PStr ''ghost'') (PDict [])) user_state
   = (Inr (),
      user_state\<lparr>heap := (heap user_state)(0 := heap user_state 0 @
                    [PDict [(PStr ''role'', PStr ''tool''),
                            (PStr ''content'',
                             PStr (''Tool '' @ [CHR 0x27] @ ''ghost'' @ [CHR 0x27] @ '' not found.'')),
                            (PStr ''tool_name'', PStr ''ghost'')]])\<rparr>) \<and>
   tool_call_step (scripted_runtime two_turns) 0 PNone nameless_request user_state
   = (Inr (),
      user_state\<lparr>heap := (heap user_state)(0 := heap user_state 0 @
                    [PDict [(PStr ''role'', PStr ''tool''),
                            (PStr ''content'',
                             PStr (''Tool '' @ [CHR 0x27] @ ''None'' @ [CHR 0x27] @ '' not found.'')),
                            (PStr ''tool_name'', PStr ''unknown_tool'')]])\<rparr>)"
proof -
  let ?rt = "scripted_runtime two_turns"
  have h1: "extract_tool_call_parts (tool_request (PStr ''ghost'') (PDict [])) = (PStr ''ghost'', PDict [])"
    by code_simp
  have h2: "demo_tool_map = PNone \<or>
         (\<exists>kvs. demo_tool_map = PDict kvs \<and>
                \<not> callable_py (case dict_lookup kvs (PStr ''ghost'') of Some v \<Rightarrow> v | None \<Rightarrow> PNone))"
    by (simp add: demo_tool_map_def)
  have h3: "extract_tool_call_parts nameless_request = (PNone, PDict [])"
    by code_simp
  from unknown_tool_is_reported [OF h1 _ h2, of "''ghost''" ?rt 0 user_state "[]"]
       unknown_tool_is_reported [OF h3, of "[]" PNone ?rt 0 user_state "[]"]
  show ?thesis by simp
qed

text \<open>
  C5 as stated fails where the name is absent: the content is
  \<^verbatim>\<open>Tool 'None' not found.\<close>, not \<^verbatim>\<open>Tool 'unknown_tool' not found.\<close>
\<close>

theorem absent_name_content_counterexample:
  "last (heap (snd (tool_call_step (scripted_runtime two_turns) 0 demo_tool_map
                      nameless_request user_state)) 0)
   = PDict [(PStr ''role'', PStr ''tool''),
            (PStr ''content'', PStr (''Tool '' @ [CHR 0x27] @ ''None'' @ [CHR 0x27] @ '' not found.'')),
            (PStr ''tool_name'', PStr ''unknown_tool'')] \<and>
   last (heap (snd (tool_call_step (scripted_runtime two_turns) 0 demo_tool_map
                      nameless_request user_state)) 0)
   \<noteq> PDict [(PStr ''role'', PStr ''tool''),
            (PStr ''content'',
             PStr (''Tool '' @ [CHR 0x27] @ ''unknown_tool'' @ [CHR 0x27] @ '' not found.'')),
            (PStr ''tool_name'', PStr ''unknown_tool'')]"
  by code_simp



text \<open>
  C7. When no \<^verbatim>\<open>tool_map\<close> is passed and the tools' inferred names are distinct
  non-empty strings, the registry built by inference resolves every name as the explicit
  mapping from these names to the same tools does, and passing that mapping explicitly
  changes nothing in the whole run. An explicit mapping is used as it is, whatever
  \<^verbatim>\<open>tools\<close> holds: no name is inferred.
\<close>

theorem explicit_and_inferred_registry_agree:
  assumes "map infer_tool_name ts = map PStr names" and "distinct names" and "[] \<notin> set names"
    and "map_of kwargs ''tool_map'' = None"
    and "kwargs_get kwargs ''tools'' PNone = PList ts"
  shows "(\<exists>tm. build_tool_map (kwargs_get kwargs ''tool_map'' PNone) (kwargs_get kwargs ''tools'' PNone)
                = Inr tm \<and>
              (\<forall>name w. registry_get rt tm name w =
                         registry_get rt (PDict (zip (map PStr names) ts)) name w)) \<and>
         ollama_automatic_function_calling rt client_fn messages options kwargs st =
         ollama_automatic_function_calling rt client_fn messages options
           (kwargs @ [(''tool_map'', PDict (zip (map PStr names) ts))]) st \<and>
         (\<forall>tool_map tools. tool_map \<noteq> PNone \<longrightarrow> build_tool_map tool_map tools = Inr tool_map)"
proof -
  let ?explicit = "PDict (zip (map PStr names) ts)"
  let ?kwargs' = "kwargs @ [(''tool_map'', ?explicit)]"
  let ?tm = "if ts = [] then PNone else ?explicit"
  have reg: "register_tools ts [] = Inr (zip (map PStr names) ts)"
    using register_tools_fresh [OF assms(1-3), of "[]"] by simp
  have none: "kwargs_get kwargs ''tool_map'' PNone = PNone"
    using assms(4) by (simp add: kwargs_get_def)
  have b: "build_tool_map (kwargs_get kwargs ''tool_map'' PNone) (kwargs_get kwargs ''tools'' PNone)
             = Inr ?tm"
    using reg by (simp add: build_tool_map_def none assms(5))
  have eq: "\<And>name w. registry_get rt ?tm name w = registry_get rt ?explicit name w"
    using assms(1) by (auto simp: registry_get_def)
  have skip: "\<forall>tool_map tools. tool_map \<noteq> PNone \<longrightarrow> build_tool_map tool_map tools = Inr tool_map"
    by (simp add: build_tool_map_def)
  have k: "kwargs_get ?kwargs' ''model'' PNone = kwargs_get kwargs ''model'' PNone"
    "kwargs_get ?kwargs' ''tools'' PNone = kwargs_get kwargs ''tools'' PNone"
    "kwargs_get ?kwargs' ''max_turns'' (PInt 20) = kwargs_get kwargs ''max_turns'' (PInt 20)"
    "kwargs_get ?kwargs' ''tool_map'' PNone = ?explicit"
    "chat_kwargs_of ?kwargs' = chat_kwargs_of kwargs"
    using assms(4)
    by (simp_all add: kwargs_get_append_other kwargs_get_append_new chat_kwargs_of_def reserved_def)
  have b': "build_tool_map (kwargs_get ?kwargs' ''tool_map'' PNone) (kwargs_get ?kwargs' ''tools'' PNone)
             = Inr ?explicit"
    by (simp add: k(4) build_tool_map_def)
  have run: "ollama_automatic_function_calling rt client_fn messages options kwargs st =
         ollama_automatic_function_calling rt client_fn messages options ?kwargs' st"
    unfolding driver_unfold [OF b] driver_unfold [OF b'] k turns_cong [OF eq] ..
  from b eq run skip show ?thesis by blast
qed

theorem explicit_and_inferred_registry_agree_witness:
  "build_tool_map PNone (PList [add_tool, failing_tool]) = Inr demo_tool_map \<and>
   ollama_automatic_function_calling (scripted_runtime two_turns) chat_backend 0 PNone
     [(''model'', PStr ''glm''), (''tools'', PList [add_tool, failing_tool])] user_state =
   ollama_automatic_function_calling (scripted_runtime two_turns) chat_backend 0 PNone
     [(''model'', PStr ''glm''), (''tools'', PList [add_tool, failing_tool]),
      (''tool_map'', demo_tool_map)] user_state \<and>
   build_tool_map demo_tool_map (PInt 5) = Inr demo_tool_map"
proof -
  let ?kwargs = "[(''model'', PStr ''glm''), (''tools'', PList [add_tool, failing_tool])]"
  have h: "map infer_tool_name [add_tool, failing_tool] = map PStr [''add'', ''div'']"
    "distinct [''add'', ''div'']" "[] \<notin> set [''add'', ''div'']"
    "map_of ?kwargs ''tool_map'' = None"
    "kwargs_get ?kwargs ''tools'' PNone = PList [add_tool, failing_tool]"
    by code_simp+
  have d: "PDict (zip (map PStr [''add'', ''div'']) [add_tool, failing_tool]) = demo_tool_map"
    "demo_tool_map \<noteq> PNone"
    by code_simp+
  have b: "build_tool_map PNone (PList [add_tool, failing_tool]) = Inr demo_tool_map"
    by code_simp
  from explicit_and_inferred_registry_agree [OF h, of "scripted_runtime two_turns" chat_backend 0 PNone user_state]
  have "ollama_automatic_function_calling (scripted_runtime two_turns) chat_backend 0 PNone
          ?kwargs user_state =
        ollama_automatic_function_calling (scripted_runtime two_turns) chat_backend 0 PNone
          (?kwargs @ [(''tool_map'', demo_tool_map)]) user_state"
    and "build_tool_map demo_tool_map (PInt 5) = Inr demo_tool_map"
    unfolding d(1) using d(2) by blast+
  with b show ?thesis by simp
qed

text \<open>
  C8. Every backend call of a run gets the keyword arguments \<^verbatim>\<open>model\<close>,
  \<^verbatim>\<open>tools\<close>, \<^verbatim>\<open>messages\<close>, \<^verbatim>\<open>options\<close> followed by exactly the caller's
  named parameters whose names are not reserved, unchanged and in the caller's order.
\<close>

theorem extras_forwarded_on_every_turn:
  assumes "ollama_automatic_function_calling rt client_fn messages options kwargs st = (r, st')"
  shows "\<exists>evs. trace st' = trace st @ evs \<and>
     (\<forall>kw. Backend_Call kw \<in> set evs \<longrightarrow>
        (\<exists>msgs. kw = PDict ([(PStr ''model'', kwargs_get kwargs ''model'' PNone),
                              (PStr ''tools'', kwargs_get kwargs ''tools'' PNone),
                              (PStr ''messages'', PList msgs), (PStr ''options'', options)] @
                             map (\<lambda>(k, v). (PStr k, v))
                               (filter (\<lambda>(k, v). k \<notin> {''model'', ''tools'', ''messages'', ''options'',
                                                      ''max_turns'', ''tool_map''}) kwargs))))"
proof -
  have f: "chat_kwargs_of kwargs = filter (\<lambda>(k, v). k \<notin> {''model'', ''tools'', ''messages'', ''options'',
                                                      ''max_turns'', ''tool_map''}) kwargs"
    by (simp add: chat_kwargs_of_def reserved_def)
  from driver_effect [OF assms]
  have t: "trace st' = trace st @ logged st st'"
    and b: "\<forall>ev \<in> set (logged st st'). is_backend_call ev \<longrightarrow>
            (\<exists>msgs. ev = Backend_Call (backend_kwargs (kwargs_get kwargs ''model'' PNone)
                       (kwargs_get kwargs ''tools'' PNone) msgs options (chat_kwargs_of kwargs)))"
    by (simp_all add: grows_def)
  show ?thesis
  proof (intro exI [of _ "logged st st'"] conjI allI impI)
    show "trace st' = trace st @ logged st st'" by (rule t)
  next
    fix kw
    assume "Backend_Call kw \<in> set (logged st st')"
    with b have "\<exists>msgs. Backend_Call kw = Backend_Call (backend_kwargs (kwargs_get kwargs ''model'' PNone)
                       (kwargs_get kwargs ''tools'' PNone) msgs options (chat_kwargs_of kwargs))"
      by force
    then show "\<exists>msgs. kw = PDict ([(PStr ''model'', kwargs_get kwargs ''model'' PNone),
                              (PStr ''tools'', kwargs_get kwargs ''tools'' PNone),
                              (PStr ''messages'', PList msgs), (PStr ''options'', options)] @
                             map (\<lambda>(k, v). (PStr k, v))
                               (filter (\<lambda>(k, v). k \<notin> {''model'', ''tools'', ''messages'', ''options'',
                                                      ''max_turns'', ''tool_map''}) kwargs))"
      unfolding f [symmetric] by (simp add: backend_kwargs_def)
  qed
qed

theorem extras_forwarded_witness:
  "(\<exists>evs. trace (snd (ollama_automatic_function_calling (scripted_runtime two_turns) chat_backend 0
                         (PDict [(PStr ''temperature'', PInt 1)])
                         [(''model'', PStr ''glm''), (''tools'', PList [add_tool]),
                          (''think'', PStr ''low''), (''max_turns'', PInt 5)] user_state))
            = trace user_state @ evs \<and>
          (\<forall>kw. Backend_Call kw \<in> set evs \<longrightarrow>
             (\<exists>msgs. kw = PDict [(PStr ''model'', PStr ''glm''), (PStr ''tools'', PList [add_tool]),
                                  (PStr ''messages'', PList msgs),
                                  (PStr ''options'', PDict [(PStr ''temperature'', PInt 1)]),
                                  (PStr ''think'', PStr ''low'')]))) \<and>
   length (filter is_backend_call
     (trace (snd (ollama_automatic_function_calling (scripted_runtime two_turns) chat_backend 0
                         (PDict [(PStr ''temperature'', PInt 1)])
                         [(''model'', PStr ''glm''), (''tools'', PList [add_tool]),
                          (''think'', PStr ''low''), (''max_turns'', PInt 5)] user_state)))) = 2"
proof -
  let ?kwargs = "[(''model'', PStr ''glm''), (''tools'', PList [add_tool]),
                  (''think'', PStr ''low''), (''max_turns'', PInt 5)]"
  let ?run = "ollama_automatic_function_calling (scripted_runtime two_turns) chat_backend 0
                (PDict [(PStr ''temperature'', PInt 1)]) ?kwargs user_state"
  have n: "length (filter is_backend_call (trace (snd ?run))) = 2"
    by code_simp
  have "?run = (fst ?run, snd ?run)"
    by simp
  from extras_forwarded_on_every_turn [OF this]
  have "\<exists>evs. trace (snd ?run) = trace user_state @ evs \<and>
          (\<forall>kw. Backend_Call kw \<in> set evs \<longrightarrow>
             (\<exists>msgs. kw = PDict [(PStr ''model'', PStr ''glm''), (PStr ''tools'', PList [add_tool]),
                                  (PStr ''messages'', PList msgs),
                                  (PStr ''options'', PDict [(PStr ''temperature'', PInt 1)]),
                                  (PStr ''think'', PStr ''low'')]))"
    by (simp add: kwargs_get_def)
  with n show ?thesis by blast
qed



text \<open>
  C10. When \<^verbatim>\<open>max_turns\<close> is zero or negative the loop body never runs: the state
  (transcript, call log, world) is left as it was, so no backend invocation happens,
  and, the configuration being valid, the function returns the pair whose first
  component is \<^verbatim>\<open>None\<close> (line 34 with line 140) and whose second is the supplied list.
\<close>

theorem nonpositive_max_turns_returns_None:
  assumes "map_of kwargs ''max_turns'' = Some (PInt n)" and "n \<le> 0"
  shows "snd (ollama_automatic_function_calling rt client_fn messages options kwargs st) = st \<and>
         (kwargs_get kwargs ''model'' PNone \<noteq> PNone \<and> callable_py client_fn \<and>
          build_tool_map (kwargs_get kwargs ''tool_map'' PNone) (kwargs_get kwargs ''tools'' PNone)
            = Inr tool_map
          \<longrightarrow> fst (ollama_automatic_function_calling rt client_fn messages options kwargs st)
                = Inr (PNone, messages))"
proof -
  have r: "range_py (kwargs_get kwargs ''max_turns'' (PInt 20)) = Inr 0"
    using assms by (simp add: kwargs_get_def)
  show ?thesis
    by (simp add: ollama_automatic_function_calling_def Let_def r split: sum.split)
qed

theorem nonpositive_max_turns_witness:
  "ollama_automatic_function_calling (scripted_runtime two_turns) chat_backend 0 PNone
     [(''model'', PStr ''glm''), (''tools'', PList [add_tool]), (''max_turns'', PInt (- 3))]
     user_state
   = (Inr (PNone, 0), user_state)"
proof -
  have b: "build_tool_map PNone (PList [add_tool]) = Inr (PDict [(PStr ''add'', add_tool)])"
    by code_simp
  have c: "callable_py chat_backend"
    by (simp add: chat_backend_def)
  show ?thesis
    using nonpositive_max_turns_returns_None
      [of "[(''model'', PStr ''glm''), (''tools'', PList [add_tool]), (''max_turns'', PInt (- 3))]"
          "- 3" "scripted_runtime two_turns" chat_backend 0 PNone user_state
          "PDict [(PStr ''add'', add_tool)]"] b c
    by (simp add: kwargs_get_def prod_eq_iff)
qed

end
